theory Spec2Isabelle
  imports Complex_Main "HOL-Library.AList"
begin

section \<open>Data model\<close>

text \<open>
  The raster utilities of \<^verbatim>\<open>sar_antarctica/utils/raster.py\<close> work on Python floats,
  rasterio profiles (dictionaries from field names to values), affine transforms and
  numpy arrays. Floats are modelled by the real numbers: every result below is about
  exact arithmetic. The concrete rasters used below have small integers and halves as
  coordinates, which binary floating point represents exactly; the boxes of the
  antimeridian tests are the decimal numbers of the test module.
\<close>

type_synonym bbox = "real \<times> real \<times> real \<times> real"
  \<comment> \<open>\<open>(min_x, min_y, max_x, max_y)\<close>, also \<open>(left, bottom, right, top)\<close>\<close>

section \<open>Python values, exceptions and the object store\<close>

record affine =
  aff_a :: real
  aff_b :: real
  aff_c :: real
  aff_d :: real
  aff_e :: real
  aff_f :: real

datatype pyval = PNone | PInt int | PFloat real | PStr string | PAffine affine

type_synonym pdict = "(string \<times> pyval) list"
  \<comment> \<open>a profile: a dictionary, read with \<open>map_of\<close>, written with \<open>AList.update\<close>\<close>

record ndarray =
  shape :: "nat list"
  elems :: "real list"

datatype pyexc =
    AssertionError string
  | ValueError string
  | KeyError string
  | IndexError
  | ZeroDivisionError
  | TypeError
  | AttributeError
  | RasterioIOError

fun exc_class :: "pyexc \<Rightarrow> string" where
  "exc_class (AssertionError msg) = ''AssertionError''"
| "exc_class (ValueError msg) = ''ValueError''"
| "exc_class (KeyError k) = ''KeyError''"
| "exc_class IndexError = ''IndexError''"
| "exc_class ZeroDivisionError = ''ZeroDivisionError''"
| "exc_class TypeError = ''TypeError''"
| "exc_class AttributeError = ''AttributeError''"
| "exc_class RasterioIOError = ''RasterioIOError''"

text \<open>
  What \<^verbatim>\<open>rasterio.open(path)\<close> gives the code that reads it: the result of
  \<^verbatim>\<open>read(1)\<close>, the profile and the bounds.
\<close>

record dataset =
  ds_read1 :: ndarray
  ds_profile :: pdict
  ds_bounds :: bbox

text \<open>
  Dictionaries are mutable objects passed by reference, so they live in a store:
  \<open>dicts\<close> maps a reference to the dictionary it holds and \<open>fresh\<close> is the next unused
  reference (every reference below it is allocated). \<open>files\<close> are the rasters that can
  be opened for reading, \<open>saved\<close> what has been written. Arrays are values: no
  function below assigns into an array.
\<close>

record world =
  dicts :: "nat \<Rightarrow> pdict"
  fresh :: nat
  files :: "string \<Rightarrow> dataset option"
  saved :: "string \<Rightarrow> (ndarray \<times> pdict) option"

definition dict_new :: "pdict \<Rightarrow> world \<Rightarrow> nat \<times> world" where
  "dict_new d w = (fresh w, w\<lparr>dicts := (dicts w)(fresh w := d), fresh := Suc (fresh w)\<rparr>)"

definition dict_copy :: "nat \<Rightarrow> world \<Rightarrow> nat \<times> world" where
  "dict_copy r w = dict_new (dicts w r) w"

definition dict_setitem :: "nat \<Rightarrow> string \<Rightarrow> pyval \<Rightarrow> world \<Rightarrow> world" where
  "dict_setitem r k v w = w\<lparr>dicts := (dicts w)(r := AList.update k v (dicts w r))\<rparr>"

definition py_getitem :: "pdict \<Rightarrow> string \<Rightarrow> pyexc + pyval" where
  "py_getitem d k = (case map_of d k of None \<Rightarrow> Inl (KeyError k) | Some v \<Rightarrow> Inr v)"

definition py_int :: "real \<Rightarrow> int" where
  \<comment> \<open>\<^verbatim>\<open>int(x)\<close> of a float: truncation towards zero\<close>
  "py_int x = (if 0 \<le> x then \<lfloor>x\<rfloor> else \<lceil>x\<rceil>)"

section \<open>Library functions used by the raster utilities\<close>

text \<open>
  \<^verbatim>\<open>rasterio.transform.array_bounds\<close>: the west, south, east and north edges of an
  array of the given size under the transform (for an unrotated transform,
  \<open>(c, f + e * height, c + a * width, f)\<close>).
\<close>

fun num_of :: "pyval \<Rightarrow> real option" where
  "num_of (PInt n) = Some (real_of_int n)"
| "num_of (PFloat x) = Some x"
| "num_of _ = None"

definition array_bounds :: "pyval \<Rightarrow> pyval \<Rightarrow> pyval \<Rightarrow> pyexc + bbox" where
  "array_bounds height width transform =
     (case (num_of height, num_of width, transform) of
        (Some h, Some w, PAffine t) \<Rightarrow>
          Inr (aff_c t, aff_f t + aff_d t * w + aff_e t * h,
               aff_c t + aff_a t * w + aff_b t * h, aff_f t)
      | _ \<Rightarrow> Inl TypeError)"

definition from_origin :: "real \<Rightarrow> real \<Rightarrow> real \<Rightarrow> real \<Rightarrow> affine" where
  "from_origin west north xsize ysize =
     \<lparr>aff_a = xsize, aff_b = 0, aff_c = west, aff_d = 0, aff_e = - ysize, aff_f = north\<rparr>"

text \<open>
  \<^verbatim>\<open>np.full((n0, n1, n2), fill_value)\<close>: a three-dimensional array of one value; a
  negative dimension is a ValueError. The cast of the value to the dtype is not modelled.
\<close>

definition np_full :: "int \<Rightarrow> int \<Rightarrow> int \<Rightarrow> real \<Rightarrow> pyexc + ndarray" where
  "np_full n0 n1 n2 fill_value =
     (if n0 < 0 \<or> n1 < 0 \<or> n2 < 0 then Inl (ValueError ''negative dimensions are not allowed'')
      else Inr \<lparr>shape = [nat n0, nat n1, nat n2],
                elems = replicate (nat (n0 * n1 * n2)) fill_value\<rparr>)"

definition newaxis :: "ndarray \<Rightarrow> ndarray" where
  \<comment> \<open>\<^verbatim>\<open>arr[np.newaxis, ...]\<close>\<close>
  "newaxis arr = arr\<lparr>shape := 1 # shape arr\<rparr>"

definition shape_at :: "ndarray \<Rightarrow> nat \<Rightarrow> pyexc + nat" where
  \<comment> \<open>\<^verbatim>\<open>arr.shape[i]\<close>\<close>
  "shape_at arr i = (if i < length (shape arr) then Inr (shape arr ! i) else Inl IndexError)"

text \<open>
  The in-memory datasets and \<^verbatim>\<open>rasterio.merge.merge\<close> (lines 191 to 197 of
  \<^verbatim>\<open>raster.py\<close>) are the library's: they are a parameter of the model, a function from
  the datasets (each a profile with its array), the resampling name, the method, the
  nodata value and the dtype to the merged array and transform, or an exception.
\<close>

type_synonym merge_lib =
  "(pdict \<times> ndarray) list \<Rightarrow> string \<Rightarrow> string \<Rightarrow> pyval \<Rightarrow> pyval \<Rightarrow> pyexc + (ndarray \<times> affine)"

section \<open>The raster utilities\<close>

definition bounds_from_profile :: "pdict \<Rightarrow> pyexc + bbox" where
  "bounds_from_profile profile =
     (case py_getitem profile ''height'' of
        Inl e \<Rightarrow> Inl e
      | Inr height \<Rightarrow>
        (case py_getitem profile ''width'' of
           Inl e \<Rightarrow> Inl e
         | Inr width \<Rightarrow>
           (case py_getitem profile ''transform'' of
              Inl e \<Rightarrow> Inl e
            | Inr transform \<Rightarrow> array_bounds height width transform)))"

subsection \<open>\<^verbatim>\<open>merge_arrays_with_geometadata\<close>\<close>

definition same_ndim :: "ndarray list \<Rightarrow> bool" where
  \<comment> \<open>\<^verbatim>\<open>len(set([len(arr.shape) for arr in arrays])) == 1\<close>\<close>
  "same_ndim arrays = (card (set (map (\<lambda>arr. length (shape arr)) arrays)) = 1)"

definition merged_profile ::
  "nat \<Rightarrow> ndarray \<Rightarrow> affine \<Rightarrow> pyval \<Rightarrow> pyval \<Rightarrow> world \<Rightarrow> (pyexc + (ndarray \<times> nat)) \<times> world" where
  \<comment> \<open>lines 199 to 212: the profile of the merged array, a copy of the first profile\<close>
  "merged_profile p0 merged_arr merged_trans nodata dtype w =
     (let (prof_merged, w1) = dict_copy p0 w;
          w2 = dict_setitem prof_merged ''transform'' (PAffine merged_trans) w1
      in
      (case shape_at merged_arr 0 of
         Inl e \<Rightarrow> (Inl e, w2)
       | Inr n0 \<Rightarrow>
         (let w3 = dict_setitem prof_merged ''count'' (PInt (int n0)) w2 in
          (case shape_at merged_arr 1 of
             Inl e \<Rightarrow> (Inl e, w3)
           | Inr n1 \<Rightarrow>
             (let w4 = dict_setitem prof_merged ''height'' (PInt (int n1)) w3 in
              (case shape_at merged_arr 2 of
                 Inl e \<Rightarrow> (Inl e, w4)
               | Inr n2 \<Rightarrow>
                 (let w5 = dict_setitem prof_merged ''width'' (PInt (int n2)) w4;
                      w6 = (if nodata \<noteq> PNone
                            then dict_setitem prof_merged ''nodata'' nodata w5 else w5);
                      w7 = (if dtype \<noteq> PNone
                            then dict_setitem prof_merged ''dtype'' dtype w6 else w6)
                  in (Inr (merged_arr, prof_merged), w7))))))))"

definition merge_arrays_with_geometadata ::
  "merge_lib \<Rightarrow> ndarray list \<Rightarrow> nat list \<Rightarrow> string \<Rightarrow> pyval \<Rightarrow> pyval \<Rightarrow> string
     \<Rightarrow> world \<Rightarrow> (pyexc + (ndarray \<times> nat)) \<times> world" where
  "merge_arrays_with_geometadata M arrays profiles resampling nodata dtype method w =
     (case arrays of
        [] \<Rightarrow> (Inl IndexError, w)
      | arr0 # _ \<Rightarrow>
        let n_dim = shape arr0 in
        if length n_dim \<notin> {2, 3} then
          (Inl (ValueError
            ''Currently arrays must be in BIP formati.e. channels x height x width or flat array''), w)
        else if \<not> same_ndim arrays then
          (Inl (ValueError ''All arrays must have same number of dimensions i.e. 2 or 3''), w)
        else
          let arrays_input = (if length n_dim = 2 then map newaxis arrays else arrays) in
          if length arrays \<noteq> length profiles then
            (Inl (ValueError ''Length of arrays and profiles needs to be the same''), w)
          else
            (case M (zip (map (dicts w) profiles) arrays_input) resampling method nodata dtype of
               Inl e \<Rightarrow> (Inl e, w)
             | Inr (merged_arr, merged_trans) \<Rightarrow>
               (case profiles of
                  [] \<Rightarrow> (Inl IndexError, w)
                | p0 # _ \<Rightarrow> merged_profile p0 merged_arr merged_trans nodata dtype w)))"

subsection \<open>\<^verbatim>\<open>expand_raster_to_bounds\<close>\<close>

definition truthy_profile :: "world \<Rightarrow> nat option \<Rightarrow> bool" where
  \<comment> \<open>the truth value of \<^verbatim>\<open>src_profile\<close>: not None and not an empty dictionary\<close>
  "truthy_profile w src_profile =
     (case src_profile of None \<Rightarrow> False | Some p \<Rightarrow> dicts w p \<noteq> [])"

definition truthy_str :: "string \<Rightarrow> bool" where
  "truthy_str s = (s \<noteq> [])"

definition args_provided :: "world \<Rightarrow> string \<Rightarrow> nat option \<Rightarrow> ndarray option \<Rightarrow> bool" where
  \<comment> \<open>the asserted condition of line 76\<close>
  "args_provided w src_path src_profile src_array =
     (truthy_str src_path
      \<or> (truthy_profile w src_profile \<and> src_array \<noteq> None)
      \<or> truthy_profile w src_profile)"

definition read_source ::
  "string \<Rightarrow> nat option \<Rightarrow> ndarray option \<Rightarrow> world
     \<Rightarrow> (pyexc + (ndarray option \<times> nat \<times> bbox)) \<times> world" where
  \<comment> \<open>lines 79 to 86: the source array, profile and bounds\<close>
  "read_source src_path src_profile src_array w =
     (if truthy_str src_path then
        (case files w src_path of
           None \<Rightarrow> (Inl RasterioIOError, w)
         | Some src \<Rightarrow>
           let (p, w1) = dict_new (ds_profile src) w
           in (Inr (Some (ds_read1 src), p, ds_bounds src), w1))
      else
        (case src_profile of
           None \<Rightarrow> (Inl TypeError, w)
         | Some p \<Rightarrow>
           (case bounds_from_profile (dicts w p) of
              Inl e \<Rightarrow> (Inl e, w)
            | Inr src_bounds \<Rightarrow> (Inr (src_array, p, src_bounds), w))))"

definition pixel_size :: "(affine \<Rightarrow> real) \<Rightarrow> pdict \<Rightarrow> pyexc + real" where
  \<comment> \<open>\<^verbatim>\<open>abs(src_profile['transform'].a)\<close>, and the same for \<^verbatim>\<open>.e\<close>\<close>
  "pixel_size coeff profile =
     (case py_getitem profile ''transform'' of
        Inl e \<Rightarrow> Inl e
      | Inr (PAffine t) \<Rightarrow> Inr \<bar>coeff t\<bar>
      | Inr _ \<Rightarrow> Inl AttributeError)"

record extent =
  new_left_pixels :: int
  new_right_pixels :: int
  new_bottom_pixels :: int
  new_top_pixels :: int
  new_trg_left :: real
  new_trg_right :: real
  new_trg_bottom :: real
  new_trg_top :: real
  new_width :: int
  new_height :: int

definition expand_extent :: "bbox \<Rightarrow> bbox \<Rightarrow> real \<Rightarrow> real \<Rightarrow> pyexc + extent" where
  \<comment> \<open>lines 89 and 93 to 113; a float division by zero raises ZeroDivisionError\<close>
  "expand_extent src_bounds trg_bounds lon_res lat_res =
     (case src_bounds of (src_left, src_bottom, src_right, src_top) \<Rightarrow>
     (case trg_bounds of (trg_left, trg_bottom, trg_right, trg_top) \<Rightarrow>
      if lon_res = 0 \<or> lat_res = 0 then Inl ZeroDivisionError
      else
        let nl = py_int (\<bar>trg_left - src_left\<bar> / lon_res);
            nr = py_int (\<bar>trg_right - src_right\<bar> / lon_res);
            nb = py_int (\<bar>trg_bottom - src_bottom\<bar> / lat_res);
            nt = py_int (\<bar>trg_top - src_top\<bar> / lat_res);
            l0 = src_left - real_of_int nl * lon_res;
            r0 = src_right + real_of_int nr * lon_res;
            b0 = src_bottom - real_of_int nb * lat_res;
            t0 = src_top + real_of_int nt * lat_res;
            l1 = (if src_left < trg_left then src_left else l0);
            r1 = (if src_right > trg_right then src_right else r0);
            b1 = (if src_bottom < trg_bottom then src_bottom else b0);
            t1 = (if src_top < trg_top then src_top else t0)
        in Inr \<lparr>new_left_pixels = nl, new_right_pixels = nr,
                 new_bottom_pixels = nb, new_top_pixels = nt,
                 new_trg_left = l1, new_trg_right = r1,
                 new_trg_bottom = b1, new_trg_top = t1,
                 new_width = py_int ((r1 - l1) / lon_res),
                 new_height = py_int ((t1 - b1) / lat_res)\<rparr>))"

definition make_fill ::
  "nat \<Rightarrow> extent \<Rightarrow> real \<Rightarrow> real \<Rightarrow> real \<Rightarrow> world \<Rightarrow> (pyexc + (ndarray \<times> nat)) \<times> world" where
  \<comment> \<open>lines 116 to 125: the fill profile, a copy of the source profile, and the fill array\<close>
  "make_fill src_profile x lon_res lat_res fill_value w =
     (let transform = from_origin (new_trg_left x) (new_trg_top x) lon_res lat_res;
          (fill_profile, w1) = dict_copy src_profile w;
          w2 = dict_setitem fill_profile ''width'' (PInt (new_width x)) w1;
          w3 = dict_setitem fill_profile ''height'' (PInt (new_height x)) w2;
          w4 = dict_setitem fill_profile ''transform'' (PAffine transform) w3
      in
      case py_getitem (dicts w4 src_profile) ''dtype'' of
        Inl e \<Rightarrow> (Inl e, w4)
      | Inr dt \<Rightarrow>
        (case np_full 1 (new_height x) (new_width x) fill_value of
           Inl e \<Rightarrow> (Inl e, w4)
         | Inr fill_array \<Rightarrow> (Inr (fill_array, fill_profile), w4)))"

definition merge_source ::
  "merge_lib \<Rightarrow> ndarray option \<Rightarrow> nat \<Rightarrow> ndarray \<Rightarrow> nat \<Rightarrow> world
     \<Rightarrow> (pyexc + (ndarray \<times> nat)) \<times> world" where
  \<comment> \<open>lines 127 to 140\<close>
  "merge_source M src_array src_profile fill_array fill_profile w =
     (case src_array of
        Some arr \<Rightarrow>
          (case py_getitem (dicts w src_profile) ''nodata'' of
             Inl e \<Rightarrow> (Inl e, w)
           | Inr nodata \<Rightarrow>
             (case py_getitem (dicts w src_profile) ''dtype'' of
                Inl e \<Rightarrow> (Inl e, w)
              | Inr dtype \<Rightarrow>
                merge_arrays_with_geometadata M [arr, fill_array] [src_profile, fill_profile]
                  ''bilinear'' nodata dtype ''first'' w))
      | None \<Rightarrow> (Inr (fill_array, fill_profile), w))"

definition save_raster :: "string \<Rightarrow> ndarray \<Rightarrow> nat \<Rightarrow> world \<Rightarrow> world" where
  \<comment> \<open>lines 141 to 143\<close>
  "save_raster save_path trg_array trg_profile w =
     (if truthy_str save_path
      then w\<lparr>saved := (saved w)(save_path := Some (trg_array, dicts w trg_profile))\<rparr>
      else w)"

definition expand_raster_to_bounds ::
  "merge_lib \<Rightarrow> bbox \<Rightarrow> string \<Rightarrow> nat option \<Rightarrow> ndarray option \<Rightarrow> real \<Rightarrow> string
     \<Rightarrow> world \<Rightarrow> (pyexc + (ndarray \<times> nat)) \<times> world" where
  "expand_raster_to_bounds M trg_bounds src_path src_profile src_array fill_value save_path w =
     (if \<not> args_provided w src_path src_profile src_array then
        (Inl (AssertionError
          ''Either src_path, src_array and src_profile, or src_profile must be provided.''), w)
      else
        (case read_source src_path src_profile src_array w of
           (Inl e, w1) \<Rightarrow> (Inl e, w1)
         | (Inr (src_arr, src_prof, src_bounds), w1) \<Rightarrow>
           (case pixel_size aff_a (dicts w1 src_prof) of
              Inl e \<Rightarrow> (Inl e, w1)
            | Inr lon_res \<Rightarrow>
              (case pixel_size aff_e (dicts w1 src_prof) of
                 Inl e \<Rightarrow> (Inl e, w1)
               | Inr lat_res \<Rightarrow>
                 (case expand_extent src_bounds trg_bounds lon_res lat_res of
                    Inl e \<Rightarrow> (Inl e, w1)
                  | Inr x \<Rightarrow>
                    (case make_fill src_prof x lon_res lat_res fill_value w1 of
                       (Inl e, w2) \<Rightarrow> (Inl e, w2)
                     | (Inr (fill_array, fill_profile), w2) \<Rightarrow>
                       (case merge_source M src_arr src_prof fill_array fill_profile w2 of
                          (Inl e, w3) \<Rightarrow> (Inl e, w3)
                        | (Inr (trg_array, trg_profile), w3) \<Rightarrow>
                          (Inr (trg_array, trg_profile),
                           save_raster save_path trg_array trg_profile w3))))))))"

subsection \<open>The dictionary left in the merged profile\<close>

text \<open>
  The item assignments of lines 200 to 207, applied to a dictionary in their order: used
  to state what \<open>merged_profile\<close> leaves in the new profile.
\<close>

definition merged_items :: "ndarray \<Rightarrow> affine \<Rightarrow> pyval \<Rightarrow> pyval \<Rightarrow> pdict \<Rightarrow> pdict" where
  "merged_items merged_arr merged_trans nodata dtype d =
     (let d1 = AList.update ''width'' (PInt (int (shape merged_arr ! 2)))
                (AList.update ''height'' (PInt (int (shape merged_arr ! 1)))
                  (AList.update ''count'' (PInt (int (shape merged_arr ! 0)))
                    (AList.update ''transform'' (PAffine merged_trans) d)));
          d2 = (if nodata \<noteq> PNone then AList.update ''nodata'' nodata d1 else d1)
      in (if dtype \<noteq> PNone then AList.update ''dtype'' dtype d2 else d2))"

section \<open>Concrete inputs\<close>

text \<open>
  A two by two raster of unit pixels whose extent is \<open>(0, 0, 2, 2)\<close>, a second profile
  of the same size shifted one pixel east, and a store that holds both profiles and one
  raster file. All numbers are small integers or halves.
\<close>

definition sample_profile :: pdict where
  "sample_profile =
     [(''driver'', PStr ''GTiff''), (''dtype'', PStr ''float32''), (''nodata'', PNone),
      (''width'', PInt 2), (''height'', PInt 2), (''count'', PInt 1),
      (''crs'', PStr ''EPSG:4326''),
      (''transform'',
       PAffine \<lparr>aff_a = 1, aff_b = 0, aff_c = 0, aff_d = 0, aff_e = -1, aff_f = 2\<rparr>)]"

definition shifted_profile :: pdict where
  "shifted_profile =
     [(''driver'', PStr ''GTiff''), (''dtype'', PStr ''float32''), (''nodata'', PNone),
      (''width'', PInt 2), (''height'', PInt 2), (''count'', PInt 1),
      (''crs'', PStr ''EPSG:4326''),
      (''transform'',
       PAffine \<lparr>aff_a = 1, aff_b = 0, aff_c = 1, aff_d = 0, aff_e = -1, aff_f = 2\<rparr>)]"

definition band_2d :: ndarray where
  "band_2d = \<lparr>shape = [2, 2], elems = [1, 2, 3, 4]\<rparr>"

definition band_3d :: ndarray where
  "band_3d = \<lparr>shape = [1, 2, 2], elems = [1, 2, 3, 4]\<rparr>"

definition zeros_3d :: ndarray where
  "zeros_3d = \<lparr>shape = [1, 2, 2], elems = [0, 0, 0, 0]\<rparr>"

definition sample_world :: world where
  "sample_world =
     \<lparr>dicts = (\<lambda>_. [])(0 := sample_profile, 1 := shifted_profile), fresh = 2,
      files = (\<lambda>_. None)(''dem.tif'' :=
        Some \<lparr>ds_read1 = band_2d, ds_profile = sample_profile, ds_bounds = (0, 0, 2, 2)\<rparr>),
      saved = (\<lambda>_. None)\<rparr>"

text \<open>
  A stand-in for the library's merge, to run the functions on concrete inputs: it
  returns the first dataset's array and transform. Every general result below holds for
  any merge function.
\<close>

definition first_dataset_merge :: merge_lib where
  "first_dataset_merge datasets resampling method nodata dtype =
     (case datasets of
        [] \<Rightarrow> Inl RasterioIOError
      | (p, arr) # _ \<Rightarrow>
        (case map_of p ''transform'' of
           Some (PAffine t) \<Rightarrow> Inr (arr, t)
         | _ \<Rightarrow> Inl RasterioIOError))"

section \<open>Antimeridian handling\<close>

text \<open>
  Modelled from the spec: the module \<^verbatim>\<open>sar_antarctica/nci/preparation/dem.py\<close>, which
  defines \<^verbatim>\<open>check_bounds_cross_antimeridian\<close> and \<^verbatim>\<open>split_bounds_at_am_crossing\<close>,
  is not among the sources (only its test module is). The predicate follows section 4.6:
  true when the encoded \<open>min_x > max_x\<close>, or when the direct span \<open>max_x - min_x\<close>
  exceeds 180 degrees of longitude.
\<close>

definition check_bounds_cross_antimeridian :: "bbox \<Rightarrow> bool" where
  "check_bounds_cross_antimeridian bounds =
     (case bounds of (min_x, min_y, max_x, max_y) \<Rightarrow>
        min_x > max_x \<or> max_x - min_x > 180)"





section \<open>Properties of the antimeridian handling\<close>

text \<open>
  Claim C3. The predicate is false on every box written with \<open>min_x \<le> max_x\<close> that
  spans less than 180 degrees of longitude, and true on every box written with
  \<open>min_x > max_x\<close>; it is false on the first box of the test module and true on the
  second.
\<close>

theorem crosses_antimeridian_spec:
  "(min_x \<le> max_x \<and> max_x - min_x < 180
      \<longrightarrow> \<not> check_bounds_cross_antimeridian (min_x, min_y, max_x, max_y))
   \<and> (min_x > max_x \<longrightarrow> check_bounds_cross_antimeridian (min_x, min_y, max_x, max_y))
   \<and> \<not> check_bounds_cross_antimeridian (163.121597, -78.632782, 172.382263, -76.383263)
   \<and> check_bounds_cross_antimeridian (-177.884048, -78.176201, 178.838364, -75.697151)"
  by (simp add: check_bounds_cross_antimeridian_def)

theorem crosses_antimeridian_spec_witness:
  "\<not> check_bounds_cross_antimeridian (10, -70, 20, -60)
   \<and> check_bounds_cross_antimeridian (170, -70, -170, -60)"
  using crosses_antimeridian_spec [of 10 20 "-70" "-60"]
        crosses_antimeridian_spec [of 170 "-170" "-70" "-60"]
  by simp



section \<open>Running the model on concrete inputs\<close>

lemmas run_defs = expand_raster_to_bounds_def args_provided_def truthy_str_def truthy_profile_def
  read_source_def bounds_from_profile_def py_getitem_def array_bounds_def pixel_size_def
  expand_extent_def py_int_def make_fill_def from_origin_def dict_copy_def dict_new_def
  dict_setitem_def np_full_def merge_source_def save_raster_def sample_world_def sample_profile_def
  shifted_profile_def band_2d_def band_3d_def zeros_3d_def merged_profile_def
  merge_arrays_with_geometadata_def same_ndim_def newaxis_def shape_at_def first_dataset_merge_def
  Let_def

section \<open>The extent computed by \<^verbatim>\<open>expand_raster_to_bounds\<close>\<close>



lemma expand_extent_value:
  assumes "lon_res \<noteq> 0" and "lat_res \<noteq> 0"
    and "nl = py_int (\<bar>trg_left - src_left\<bar> / lon_res)"
    and "nr = py_int (\<bar>trg_right - src_right\<bar> / lon_res)"
    and "nb = py_int (\<bar>trg_bottom - src_bottom\<bar> / lat_res)"
    and "nt = py_int (\<bar>trg_top - src_top\<bar> / lat_res)"
    and "l1 = (if src_left < trg_left then src_left else src_left - real_of_int nl * lon_res)"
    and "r1 = (if src_right > trg_right then src_right else src_right + real_of_int nr * lon_res)"
    and "b1 = (if src_bottom < trg_bottom then src_bottom
               else src_bottom - real_of_int nb * lat_res)"
    and "t1 = (if src_top < trg_top then src_top else src_top + real_of_int nt * lat_res)"
  shows "expand_extent (src_left, src_bottom, src_right, src_top)
           (trg_left, trg_bottom, trg_right, trg_top) lon_res lat_res =
         Inr \<lparr>new_left_pixels = nl, new_right_pixels = nr,
              new_bottom_pixels = nb, new_top_pixels = nt,
              new_trg_left = l1, new_trg_right = r1, new_trg_bottom = b1, new_trg_top = t1,
              new_width = py_int ((r1 - l1) / lon_res),
              new_height = py_int ((t1 - b1) / lat_res)\<rparr>"
  unfolding assms(3-10) using assms(1,2) by (simp add: expand_extent_def Let_def)

text \<open>
  In exact arithmetic, when the source extent is a whole number of pixels in each
  direction, the new width and height times the pixel sizes are the new extent. Nothing
  is said here about the rounding of floating-point division before \<^verbatim>\<open>int()\<close>.
\<close>

lemma py_int_of_int: "py_int (real_of_int n) = n"
  by (simp add: py_int_def)

lemma expand_extent_exact_size:
  assumes "0 < lon_res" and "0 < lat_res"
    and "src_right - src_left = real_of_int W * lon_res"
    and "src_top - src_bottom = real_of_int H * lat_res"
    and "expand_extent (src_left, src_bottom, src_right, src_top)
           (trg_left, trg_bottom, trg_right, trg_top) lon_res lat_res = Inr x"
  shows "real_of_int (new_width x) * lon_res = new_trg_right x - new_trg_left x"
    and "real_of_int (new_height x) * lat_res = new_trg_top x - new_trg_bottom x"
proof -
  define nl where "nl = py_int (\<bar>trg_left - src_left\<bar> / lon_res)"
  define nr where "nr = py_int (\<bar>trg_right - src_right\<bar> / lon_res)"
  define nb where "nb = py_int (\<bar>trg_bottom - src_bottom\<bar> / lat_res)"
  define nt where "nt = py_int (\<bar>trg_top - src_top\<bar> / lat_res)"
  define kl where "kl = (if src_left < trg_left then 0 else nl)"
  define kr where "kr = (if src_right > trg_right then 0 else nr)"
  define kb where "kb = (if src_bottom < trg_bottom then 0 else nb)"
  define kt where "kt = (if src_top < trg_top then 0 else nt)"
  have nz: "lon_res \<noteq> 0" "lat_res \<noteq> 0"
    using assms by simp_all
  have l: "(if src_left < trg_left then src_left else src_left - real_of_int nl * lon_res)
      = src_left - real_of_int kl * lon_res"
    and r: "(if src_right > trg_right then src_right else src_right + real_of_int nr * lon_res)
      = src_right + real_of_int kr * lon_res"
    and b: "(if src_bottom < trg_bottom then src_bottom
             else src_bottom - real_of_int nb * lat_res)
      = src_bottom - real_of_int kb * lat_res"
    and t: "(if src_top < trg_top then src_top else src_top + real_of_int nt * lat_res)
      = src_top + real_of_int kt * lat_res"
    by (simp_all add: kl_def kr_def kb_def kt_def)
  have x: "x = \<lparr>new_left_pixels = nl, new_right_pixels = nr,
        new_bottom_pixels = nb, new_top_pixels = nt,
        new_trg_left = src_left - real_of_int kl * lon_res,
        new_trg_right = src_right + real_of_int kr * lon_res,
        new_trg_bottom = src_bottom - real_of_int kb * lat_res,
        new_trg_top = src_top + real_of_int kt * lat_res,
        new_width = py_int (((src_right + real_of_int kr * lon_res)
                     - (src_left - real_of_int kl * lon_res)) / lon_res),
        new_height = py_int (((src_top + real_of_int kt * lat_res)
                     - (src_bottom - real_of_int kb * lat_res)) / lat_res)\<rparr>"
    using assms(5)
      expand_extent_value [OF nz nl_def nr_def nb_def nt_def l [symmetric] r [symmetric]
        b [symmetric] t [symmetric]]
    by simp
  have wq: "((src_right + real_of_int kr * lon_res) - (src_left - real_of_int kl * lon_res))
      / lon_res = real_of_int (W + kr + kl)"
    using assms(1,3) by (simp add: field_simps)
  have hq: "((src_top + real_of_int kt * lat_res) - (src_bottom - real_of_int kb * lat_res))
      / lat_res = real_of_int (H + kt + kb)"
    using assms(2,4) by (simp add: field_simps)
  have nw: "new_width x = W + kr + kl"
    unfolding x by (simp only: extent.simps wq py_int_of_int)
  have nh: "new_height x = H + kt + kb"
    unfolding x by (simp only: extent.simps hq py_int_of_int)
  show "real_of_int (new_width x) * lon_res = new_trg_right x - new_trg_left x"
    unfolding nw using assms(3) by (simp add: x algebra_simps)
  show "real_of_int (new_height x) * lat_res = new_trg_top x - new_trg_bottom x"
    unfolding nh using assms(4) by (simp add: x algebra_simps)
qed




text \<open>
  Claim C4. A side on which the source already exceeds the target should keep the source
  bound. The top side does not: the source extent is \<open>(0, 0, 2, 2)\<close> and the target top is
  1, below the source top 2, yet the returned raster is three pixels high and its transform
  starts at 3. With the target top at 3, above the source top, the returned top stays at 2:
  the comparison of line 109 is the reverse of the one of line 107.
\<close>

theorem expand_top_side_moves_past_source:
  "bounds_from_profile (dicts sample_world 0) = Inr (0, 0, 2, 2)
   \<and> fst (expand_raster_to_bounds first_dataset_merge (0, 0, 2, 1) [] (Some 0) None 0 []
          sample_world) = Inr (\<lparr>shape = [1, 3, 2], elems = replicate 6 0\<rparr>, 2)
   \<and> dicts (snd (expand_raster_to_bounds first_dataset_merge (0, 0, 2, 1) [] (Some 0) None 0 []
          sample_world)) 2 =
       [(''driver'', PStr ''GTiff''), (''dtype'', PStr ''float32''), (''nodata'', PNone),
        (''width'', PInt 2), (''height'', PInt 3), (''count'', PInt 1),
        (''crs'', PStr ''EPSG:4326''),
        (''transform'',
         PAffine \<lparr>aff_a = 1, aff_b = 0, aff_c = 0, aff_d = 0, aff_e = -1, aff_f = 3\<rparr>)]
   \<and> dicts (snd (expand_raster_to_bounds first_dataset_merge (0, 0, 2, 3) [] (Some 0) None 0 []
          sample_world)) 2 =
       [(''driver'', PStr ''GTiff''), (''dtype'', PStr ''float32''), (''nodata'', PNone),
        (''width'', PInt 2), (''height'', PInt 2), (''count'', PInt 1),
        (''crs'', PStr ''EPSG:4326''),
        (''transform'',
         PAffine \<lparr>aff_a = 1, aff_b = 0, aff_c = 0, aff_d = 0, aff_e = -1, aff_f = 2\<rparr>)]"
  by (simp add: run_defs)

section \<open>The checks of \<^verbatim>\<open>merge_arrays_with_geometadata\<close>\<close>

lemma same_ndim_Cons:
  "same_ndim (a # rest) \<longleftrightarrow> (\<forall>b\<in>set rest. length (shape b) = length (shape a))"
proof -
  let ?S = "set (map (\<lambda>arr. length (shape arr)) (a # rest))"
  have mem: "length (shape a) \<in> ?S"
    by simp
  have "card ?S = 1 \<longleftrightarrow> ?S = {length (shape a)}"
  proof
    assume "card ?S = 1"
    then obtain x where x: "?S = {x}"
      by (auto simp: card_1_singleton_iff)
    with mem have "x = length (shape a)"
      by (metis singletonD)
    with x show "?S = {length (shape a)}"
      by simp
  next
    assume e: "?S = {length (shape a)}"
    show "card ?S = 1"
      unfolding e by simp
  qed
  also have "\<dots> \<longleftrightarrow> (\<forall>b\<in>set rest. length (shape b) = length (shape a))"
    by auto
  finally show ?thesis
    by (simp add: same_ndim_def)
qed

lemma shape_newaxis: "length (shape (newaxis arr)) = Suc (length (shape arr))"
  by (simp add: newaxis_def)

lemma merge_empty:
  "merge_arrays_with_geometadata M [] profiles resampling nodata dtype method w =
     (Inl IndexError, w)"
  by (simp add: merge_arrays_with_geometadata_def)

lemma merge_first_not_2d_3d:
  assumes "length (shape a) \<noteq> 2" and "length (shape a) \<noteq> 3"
  shows "\<exists>msg. merge_arrays_with_geometadata M (a # rest) profiles resampling nodata dtype
            method w = (Inl (ValueError msg), w)"
  using assms by (simp add: merge_arrays_with_geometadata_def Let_def)

lemma merge_not_same_ndim:
  assumes "\<not> same_ndim (a # rest)"
  shows "\<exists>msg. merge_arrays_with_geometadata M (a # rest) profiles resampling nodata dtype
            method w = (Inl (ValueError msg), w)"
  using assms by (simp add: merge_arrays_with_geometadata_def Let_def)

lemma merge_length_mismatch:
  assumes "length (a # rest) \<noteq> length profiles"
  shows "\<exists>msg. merge_arrays_with_geometadata M (a # rest) profiles resampling nodata dtype
            method w = (Inl (ValueError msg), w)"
  using assms by (simp add: merge_arrays_with_geometadata_def Let_def)

lemma merge_promotes_2d:
  assumes "\<forall>arr\<in>set (a # rest). length (shape arr) = 2"
  shows "merge_arrays_with_geometadata M (a # rest) profiles resampling nodata dtype method w =
         merge_arrays_with_geometadata M (map newaxis (a # rest)) profiles resampling nodata dtype
           method w"
proof -
  have s1: "same_ndim (a # rest)"
    using assms by (simp add: same_ndim_Cons)
  have s2: "same_ndim (newaxis a # map newaxis rest)"
    using assms by (simp add: same_ndim_Cons shape_newaxis)
  have a2: "length (shape a) = 2"
    using assms by simp
  have a3: "length (shape (newaxis a)) = 3"
    using a2 by (simp add: shape_newaxis)
  show ?thesis
    using s1 s2 a2 a3 by (simp add: merge_arrays_with_geometadata_def Let_def)
qed

text \<open>
  Claim C5, as the code has it. For a non-empty list of arrays, the call raises ValueError
  (the code has no other exception class for these checks) and leaves the store unchanged
  when some array is neither two- nor three-dimensional, when two arrays differ in their
  number of dimensions, or when the numbers of arrays and of profiles differ. Two-dimensional
  arrays that pass the checks are given a leading axis of length one before they reach the
  merge: merging them is merging their promoted forms.
\<close>

theorem merge_rejects_bad_input:
  assumes "arrays \<noteq> []"
  shows "((\<exists>arr\<in>set arrays. length (shape arr) \<notin> {2, 3})
           \<or> (\<exists>a\<in>set arrays. \<exists>b\<in>set arrays. length (shape a) \<noteq> length (shape b))
           \<or> length arrays \<noteq> length profiles
          \<longrightarrow> (\<exists>msg. merge_arrays_with_geometadata M arrays profiles resampling nodata dtype
                        method w = (Inl (ValueError msg), w)))
       \<and> ((\<forall>arr\<in>set arrays. length (shape arr) = 2)
          \<longrightarrow> merge_arrays_with_geometadata M arrays profiles resampling nodata dtype method w =
              merge_arrays_with_geometadata M (map newaxis arrays) profiles resampling nodata
                dtype method w)"
proof -
  obtain a rest where ar: "arrays = a # rest"
    using assms by (cases arrays) auto
  have p1: "\<exists>msg. merge_arrays_with_geometadata M arrays profiles resampling nodata dtype
                method w = (Inl (ValueError msg), w)"
    if bad: "(\<exists>arr\<in>set arrays. length (shape arr) \<notin> {2, 3})
           \<or> (\<exists>a\<in>set arrays. \<exists>b\<in>set arrays. length (shape a) \<noteq> length (shape b))
           \<or> length arrays \<noteq> length profiles"
  proof (cases "length (shape a) \<noteq> 2 \<and> length (shape a) \<noteq> 3")
    case True
    then show ?thesis
      unfolding ar using merge_first_not_2d_3d by blast
  next
    case first_ok: False
    show ?thesis
    proof (cases "same_ndim (a # rest)")
      case False
      then show ?thesis
        unfolding ar by (rule merge_not_same_ndim)
    next
      case True
      then have all: "\<forall>b\<in>set arrays. length (shape b) = length (shape a)"
        by (simp add: same_ndim_Cons ar)
      from all first_ok have "\<not> (\<exists>arr\<in>set arrays. length (shape arr) \<notin> {2, 3})"
        by auto
      moreover from all
      have "\<not> (\<exists>a\<in>set arrays. \<exists>b\<in>set arrays. length (shape a) \<noteq> length (shape b))"
        by auto
      ultimately have "length (a # rest) \<noteq> length profiles"
        using bad ar by blast
      then show ?thesis
        unfolding ar by (rule merge_length_mismatch)
    qed
  qed
  have p2: "merge_arrays_with_geometadata M arrays profiles resampling nodata dtype method w =
      merge_arrays_with_geometadata M (map newaxis arrays) profiles resampling nodata dtype
        method w"
    if "\<forall>arr\<in>set arrays. length (shape arr) = 2"
    using that unfolding ar by (rule merge_promotes_2d)
  show ?thesis
    using p1 p2 by blast
qed

theorem merge_rejects_bad_input_witness:
  "[band_2d, zeros_3d] \<noteq> []
   \<and> (\<exists>msg. merge_arrays_with_geometadata first_dataset_merge [band_2d, zeros_3d] [0, 1]
         ''bilinear'' PNone PNone ''first'' sample_world = (Inl (ValueError msg), sample_world))
   \<and> merge_arrays_with_geometadata first_dataset_merge [band_2d, band_2d] [0, 1]
         ''bilinear'' PNone PNone ''first'' sample_world =
       merge_arrays_with_geometadata first_dataset_merge (map newaxis [band_2d, band_2d]) [0, 1]
         ''bilinear'' PNone PNone ''first'' sample_world"
proof -
  have ne: "[band_2d, zeros_3d] \<noteq> []" and ne2: "[band_2d, band_2d] \<noteq> []"
    by simp_all
  have bad: "\<exists>a\<in>set [band_2d, zeros_3d]. \<exists>b\<in>set [band_2d, zeros_3d].
      length (shape a) \<noteq> length (shape b)"
    by (rule bexI [of _ band_2d], rule bexI [of _ zeros_3d])
       (simp_all add: band_2d_def zeros_3d_def)
  have two: "\<forall>arr\<in>set [band_2d, band_2d]. length (shape arr) = 2"
    by (simp add: band_2d_def)
  show ?thesis
    using ne bad two
      merge_rejects_bad_input [OF ne, of "[0, 1]" first_dataset_merge "''bilinear''" PNone PNone
        "''first''" sample_world]
      merge_rejects_bad_input [OF ne2, of "[0, 1]" first_dataset_merge "''bilinear''" PNone PNone
        "''first''" sample_world]
    by blast
qed

text \<open>
  Claim C5 as stated fails. Arrays of two and of three dimensions are rejected with a
  ValueError, whose class is not ShapeMismatchError; and an empty list of arrays with one
  profile, a mismatch of lengths, raises IndexError at \<^verbatim>\<open>arrays[0]\<close>.
\<close>

theorem merge_error_class_counterexample:
  "merge_arrays_with_geometadata first_dataset_merge [band_2d, zeros_3d] [0, 1]
     ''bilinear'' PNone PNone ''first'' sample_world =
     (Inl (ValueError ''All arrays must have same number of dimensions i.e. 2 or 3''), sample_world)
   \<and> exc_class (ValueError ''All arrays must have same number of dimensions i.e. 2 or 3'')
        \<noteq> ''ShapeMismatchError''
   \<and> merge_arrays_with_geometadata first_dataset_merge [] [0] ''bilinear'' PNone PNone ''first''
        sample_world = (Inl IndexError, sample_world)
   \<and> exc_class IndexError \<noteq> ''ShapeMismatchError''"
  by (simp add: merge_arrays_with_geometadata_def same_ndim_def band_2d_def zeros_3d_def)

section \<open>The profile returned by \<^verbatim>\<open>merge_arrays_with_geometadata\<close>\<close>

lemma merged_profile_value:
  assumes "2 < length (shape merged_arr)"
  shows "merged_profile p0 merged_arr merged_trans nodata dtype w =
           (Inr (merged_arr, fresh w),
            w\<lparr>dicts := (dicts w)(fresh w :=
                  merged_items merged_arr merged_trans nodata dtype (dicts w p0)),
              fresh := Suc (fresh w)\<rparr>)"
proof -
  have "shape merged_arr \<noteq> []" and "Suc 0 < length (shape merged_arr)"
    using assms by auto
  with assms show ?thesis
    by (simp add: merged_profile_def dict_copy_def dict_new_def dict_setitem_def shape_at_def
          Let_def merged_items_def)
qed

lemma merged_profile_short:
  assumes "\<not> 2 < length (shape merged_arr)"
  shows "fst (merged_profile p0 merged_arr merged_trans nodata dtype w) = Inl IndexError"
  using assms
  by (auto simp: merged_profile_def dict_copy_def dict_new_def shape_at_def Let_def)

lemma map_of_merged_items:
  "map_of (merged_items merged_arr merged_trans nodata dtype d) k =
     (if k = ''dtype'' \<and> dtype \<noteq> PNone then Some dtype
      else if k = ''nodata'' \<and> nodata \<noteq> PNone then Some nodata
      else if k = ''width'' then Some (PInt (int (shape merged_arr ! 2)))
      else if k = ''height'' then Some (PInt (int (shape merged_arr ! 1)))
      else if k = ''count'' then Some (PInt (int (shape merged_arr ! 0)))
      else if k = ''transform'' then Some (PAffine merged_trans)
      else map_of d k)"
  by (simp add: merged_items_def Let_def update_conv')

lemma merge_checked:
  assumes "length (shape a) = 2 \<or> length (shape a) = 3" and "same_ndim (a # rest)"
    and "length (a # rest) = length (p0 # prest)"
  shows "merge_arrays_with_geometadata M (a # rest) (p0 # prest) resampling nodata dtype method w =
     (case M (zip (map (dicts w) (p0 # prest))
                (if length (shape a) = 2 then map newaxis (a # rest) else a # rest))
             resampling method nodata dtype of
        Inl e \<Rightarrow> (Inl e, w)
      | Inr (merged_arr, merged_trans) \<Rightarrow>
          merged_profile p0 merged_arr merged_trans nodata dtype w)"
  using assms(1)
proof
  assume "length (shape a) = 2"
  with assms(2,3) show ?thesis
    by (simp add: merge_arrays_with_geometadata_def Let_def split: sum.split)
next
  assume "length (shape a) = 3"
  with assms(2,3) show ?thesis
    by (simp add: merge_arrays_with_geometadata_def Let_def split: sum.split)
qed

text \<open>
  Claim C10. When the call succeeds, the returned profile is a new dictionary, not one of
  the input profiles. Its transform is the merged transform, its count, height and width
  are the three dimensions of the merged array, its nodata and dtype are the arguments
  when they are not None and the first profile's otherwise, and every other key has the
  first profile's value. Every dictionary that existed before the call, the input profiles
  among them, is unchanged, and so are the files.
\<close>

theorem merged_profile_frame:
  assumes ok: "merge_arrays_with_geometadata M arrays profiles resampling nodata dtype method w =
                 (Inr (merged_arr, prof_merged), w')"
    and alloc: "\<forall>p\<in>set profiles. p < fresh w"
  shows "\<exists>p0 rest merged_trans.
           profiles = p0 # rest
         \<and> M (zip (map (dicts w) profiles)
                 (if length (shape (hd arrays)) = 2 then map newaxis arrays else arrays))
               resampling method nodata dtype = Inr (merged_arr, merged_trans)
         \<and> 2 < length (shape merged_arr)
         \<and> map_of (dicts w' prof_merged) ''transform'' = Some (PAffine merged_trans)
         \<and> map_of (dicts w' prof_merged) ''count'' = Some (PInt (int (shape merged_arr ! 0)))
         \<and> map_of (dicts w' prof_merged) ''height'' = Some (PInt (int (shape merged_arr ! 1)))
         \<and> map_of (dicts w' prof_merged) ''width'' = Some (PInt (int (shape merged_arr ! 2)))
         \<and> map_of (dicts w' prof_merged) ''nodata'' =
             (if nodata \<noteq> PNone then Some nodata else map_of (dicts w p0) ''nodata'')
         \<and> map_of (dicts w' prof_merged) ''dtype'' =
             (if dtype \<noteq> PNone then Some dtype else map_of (dicts w p0) ''dtype'')
         \<and> (\<forall>k. k \<notin> {''transform'', ''count'', ''height'', ''width'', ''nodata'', ''dtype''}
               \<longrightarrow> map_of (dicts w' prof_merged) k = map_of (dicts w p0) k)
         \<and> prof_merged \<notin> set profiles
         \<and> (\<forall>p\<in>set profiles. dicts w' p = dicts w p)
         \<and> (\<forall>r. r < fresh w \<longrightarrow> dicts w' r = dicts w r)
         \<and> files w' = files w \<and> saved w' = saved w"
proof -
  obtain a rest where ar: "arrays = a # rest"
    using ok by (cases arrays) (simp_all add: merge_empty)
  have c1: "length (shape a) = 2 \<or> length (shape a) = 3"
  proof (rule ccontr)
    assume "\<not> ?thesis"
    then obtain msg where "merge_arrays_with_geometadata M (a # rest) profiles resampling nodata
        dtype method w = (Inl (ValueError msg), w)"
      using merge_first_not_2d_3d by blast
    with ok ar show False by simp
  qed
  have c2: "same_ndim (a # rest)"
  proof (rule ccontr)
    assume "\<not> ?thesis"
    then obtain msg where "merge_arrays_with_geometadata M (a # rest) profiles resampling nodata
        dtype method w = (Inl (ValueError msg), w)"
      using merge_not_same_ndim by blast
    with ok ar show False by simp
  qed
  have c3: "length (a # rest) = length profiles"
  proof (rule ccontr)
    assume "\<not> ?thesis"
    then obtain msg where "merge_arrays_with_geometadata M (a # rest) profiles resampling nodata
        dtype method w = (Inl (ValueError msg), w)"
      using merge_length_mismatch by blast
    with ok ar show False by simp
  qed
  obtain p0 prest where pr: "profiles = p0 # prest"
    using c3 by (cases profiles) simp_all
  have c3': "length (a # rest) = length (p0 # prest)"
    using c3 pr by simp
  let ?inp = "zip (map (dicts w) (p0 # prest))
      (if length (shape a) = 2 then map newaxis (a # rest) else a # rest)"
  have run: "(case M ?inp resampling method nodata dtype of
        Inl e \<Rightarrow> (Inl e, w)
      | Inr (ma, mt) \<Rightarrow> merged_profile p0 ma mt nodata dtype w) =
      (Inr (merged_arr, prof_merged), w')"
    using ok unfolding ar pr merge_checked [OF c1 c2 c3'] .
  obtain ma mt where m: "M ?inp resampling method nodata dtype = Inr (ma, mt)"
    using run by (cases "M ?inp resampling method nodata dtype") auto
  have mp: "merged_profile p0 ma mt nodata dtype w = (Inr (merged_arr, prof_merged), w')"
    using run unfolding m by simp
  have long: "2 < length (shape ma)"
  proof (rule ccontr)
    assume "\<not> ?thesis"
    then have "fst (merged_profile p0 ma mt nodata dtype w) = Inl IndexError"
      by (rule merged_profile_short)
    with mp show False by simp
  qed
  have "(Inr (merged_arr, prof_merged) :: pyexc + ndarray \<times> nat, w') =
      (Inr (ma, fresh w),
       w\<lparr>dicts := (dicts w)(fresh w := merged_items ma mt nodata dtype (dicts w p0)),
         fresh := Suc (fresh w)\<rparr>)"
    by (rule trans [OF mp [symmetric] merged_profile_value [OF long]])
  then have res: "merged_arr = ma" "prof_merged = fresh w"
      "w' = w\<lparr>dicts := (dicts w)(fresh w := merged_items ma mt nodata dtype (dicts w p0)),
              fresh := Suc (fresh w)\<rparr>"
    by simp_all
  have new: "dicts w' prof_merged = merged_items merged_arr mt nodata dtype (dicts w p0)"
    by (simp add: res)
  have old: "dicts w' r = dicts w r" if "r < fresh w" for r
    using that by (simp add: res)
  have notin: "prof_merged \<notin> set profiles"
    using alloc res(2) by auto
  have m': "M (zip (map (dicts w) profiles)
                 (if length (shape (hd arrays)) = 2 then map newaxis arrays else arrays))
               resampling method nodata dtype = Inr (merged_arr, mt)"
    using m by (cases "length (shape a) = 2") (simp_all add: ar pr res(1))
  have k1: "map_of (dicts w' prof_merged) ''transform'' = Some (PAffine mt)"
    and k2: "map_of (dicts w' prof_merged) ''count'' = Some (PInt (int (shape merged_arr ! 0)))"
    and k3: "map_of (dicts w' prof_merged) ''height'' = Some (PInt (int (shape merged_arr ! 1)))"
    and k4: "map_of (dicts w' prof_merged) ''width'' = Some (PInt (int (shape merged_arr ! 2)))"
    and k5: "map_of (dicts w' prof_merged) ''nodata'' =
             (if nodata \<noteq> PNone then Some nodata else map_of (dicts w p0) ''nodata'')"
    and k6: "map_of (dicts w' prof_merged) ''dtype'' =
             (if dtype \<noteq> PNone then Some dtype else map_of (dicts w p0) ''dtype'')"
    unfolding new by (simp_all add: map_of_merged_items)
  have k7: "map_of (dicts w' prof_merged) k = map_of (dicts w p0) k"
    if "k \<notin> {''transform'', ''count'', ''height'', ''width'', ''nodata'', ''dtype''}" for k
    unfolding new using that by (simp add: map_of_merged_items)
  have inputs: "\<forall>p\<in>set profiles. dicts w' p = dicts w p"
    using alloc old by blast
  have fs: "files w' = files w" "saved w' = saved w"
    by (simp_all add: res)
  have lm: "2 < length (shape merged_arr)"
    using long res(1) by simp
  show ?thesis
    using pr m' lm k1 k2 k3 k4 k5 k6 k7 notin inputs old fs by blast
qed

theorem merged_profile_frame_witness:
  "merge_arrays_with_geometadata first_dataset_merge [band_3d, zeros_3d] [0, 1] ''bilinear''
      (PFloat 0) PNone ''first'' sample_world =
     (Inr (band_3d, 2),
      snd (merge_arrays_with_geometadata first_dataset_merge [band_3d, zeros_3d] [0, 1]
             ''bilinear'' (PFloat 0) PNone ''first'' sample_world))
   \<and> 0 < fresh sample_world \<and> 1 < fresh sample_world
   \<and> map_of (dicts (snd (merge_arrays_with_geometadata first_dataset_merge [band_3d, zeros_3d]
                [0, 1] ''bilinear'' (PFloat 0) PNone ''first'' sample_world)) 2) ''crs'' =
       map_of (dicts sample_world 0) ''crs''
   \<and> map_of (dicts (snd (merge_arrays_with_geometadata first_dataset_merge [band_3d, zeros_3d]
                [0, 1] ''bilinear'' (PFloat 0) PNone ''first'' sample_world)) 2) ''nodata'' =
       Some (PFloat 0)
   \<and> map_of (dicts (snd (merge_arrays_with_geometadata first_dataset_merge [band_3d, zeros_3d]
                [0, 1] ''bilinear'' (PFloat 0) PNone ''first'' sample_world)) 2) ''dtype'' =
       map_of (dicts sample_world 0) ''dtype''
   \<and> dicts (snd (merge_arrays_with_geometadata first_dataset_merge [band_3d, zeros_3d]
                [0, 1] ''bilinear'' (PFloat 0) PNone ''first'' sample_world)) 0 =
       dicts sample_world 0
   \<and> dicts (snd (merge_arrays_with_geometadata first_dataset_merge [band_3d, zeros_3d]
                [0, 1] ''bilinear'' (PFloat 0) PNone ''first'' sample_world)) 1 =
       dicts sample_world 1"
proof -
  let ?r = "merge_arrays_with_geometadata first_dataset_merge [band_3d, zeros_3d] [0, 1]
      ''bilinear'' (PFloat 0) PNone ''first'' sample_world"
  have f: "fst ?r = Inr (band_3d, 2)"
    by (simp add: run_defs)
  have ok: "?r = (Inr (band_3d, 2), snd ?r)"
    using f by (simp add: prod_eq_iff)
  have al: "\<forall>p\<in>set [0, 1]. p < fresh sample_world"
    by (simp add: sample_world_def)
  have fr: "0 < fresh sample_world" "1 < fresh sample_world"
    by (simp_all add: sample_world_def)
  from merged_profile_frame [OF ok al] obtain p0 rest where
    p: "[0, 1] = p0 # rest"
    and nodata: "map_of (dicts (snd ?r) 2) ''nodata'' =
        (if PFloat 0 \<noteq> PNone then Some (PFloat 0) else map_of (dicts sample_world p0) ''nodata'')"
    and dtype: "map_of (dicts (snd ?r) 2) ''dtype'' =
        (if PNone \<noteq> PNone then Some PNone else map_of (dicts sample_world p0) ''dtype'')"
    and other: "\<forall>k. k \<notin> {''transform'', ''count'', ''height'', ''width'', ''nodata'', ''dtype''}
        \<longrightarrow> map_of (dicts (snd ?r) 2) k = map_of (dicts sample_world p0) k"
    and inputs: "\<forall>p\<in>set [0, 1]. dicts (snd ?r) p = dicts sample_world p"
    by blast
  from p have p0: "p0 = 0"
    by simp
  have crs: "map_of (dicts (snd ?r) 2) ''crs'' = map_of (dicts sample_world 0) ''crs''"
    using other p0 by simp
  have d0: "dicts (snd ?r) 0 = dicts sample_world 0" and d1: "dicts (snd ?r) 1 = dicts sample_world 1"
    using inputs by simp_all
  show ?thesis
    using ok fr crs nodata dtype d0 d1 p0 by simp
qed

section \<open>The arguments and the source of \<^verbatim>\<open>expand_raster_to_bounds\<close>\<close>

lemma bounds_from_profile_no_assert:
  "bounds_from_profile d \<noteq> Inl (AssertionError msg)"
  by (simp add: bounds_from_profile_def py_getitem_def array_bounds_def
        split: option.split pyval.split)

lemma read_source_no_assert:
  "read_source src_path src_profile src_array w \<noteq> (Inl (AssertionError msg), w1)"
  by (auto simp: read_source_def dict_new_def bounds_from_profile_no_assert
        split: option.split sum.split)

lemma pixel_size_no_assert: "pixel_size coeff d \<noteq> Inl (AssertionError msg)"
  by (simp add: pixel_size_def py_getitem_def split: option.split pyval.split)

lemma expand_extent_no_assert:
  "expand_extent src_bounds trg_bounds lon_res lat_res \<noteq> Inl (AssertionError msg)"
  by (simp add: expand_extent_def Let_def split: prod.split)

lemma make_fill_no_assert:
  "make_fill src_profile x lon_res lat_res fill_value w \<noteq> (Inl (AssertionError msg), w1)"
  by (simp add: make_fill_def dict_copy_def dict_new_def np_full_def py_getitem_def Let_def
        split: option.split)

lemma merge_source_None:
  "merge_source M None src_profile fill_array fill_profile w = (Inr (fill_array, fill_profile), w)"
  by (simp add: merge_source_def)

lemma read_source_keeps_None:
  assumes "\<not> truthy_str src_path"
    and "read_source src_path src_profile None w = (Inr (src_arr, src_prof, src_bounds), w1)"
  shows "src_arr = None"
  using assms by (auto simp: read_source_def split: option.splits sum.splits)

lemma expand_profile_only_no_assert:
  assumes "\<not> truthy_str src_path" and "truthy_profile w src_profile"
  shows "fst (expand_raster_to_bounds M trg_bounds src_path src_profile None fill_value
                save_path w) \<noteq> Inl (AssertionError msg)"
proof -
  have ap: "args_provided w src_path src_profile None"
    using assms by (simp add: args_provided_def)
  obtain r1 w1 where rs: "read_source src_path src_profile None w = (r1, w1)"
    by (cases "read_source src_path src_profile None w")
  show ?thesis
  proof (cases r1)
    case (Inl e)
    then have "e \<noteq> AssertionError msg"
      using read_source_no_assert [of src_path src_profile None w msg w1] rs by auto
    then show ?thesis
      using ap rs Inl by (simp add: expand_raster_to_bounds_def)
  next
    case (Inr t)
    then obtain src_arr src_prof src_bounds where t: "r1 = Inr (src_arr, src_prof, src_bounds)"
      by (cases t) auto
    have none: "src_arr = None"
      using read_source_keeps_None [OF assms(1)] rs t by simp
    show ?thesis
      using ap rs t none
      by (auto simp: expand_raster_to_bounds_def merge_source_None pixel_size_no_assert
            expand_extent_no_assert make_fill_no_assert split: sum.splits prod.splits)
  qed
qed

text \<open>
  Claim C6, as the code has it. The call needs a path or a profile. With an empty path and
  no profile (None, or an empty dictionary) it fails with AssertionError, whatever the
  array is, and changes nothing. With an empty path and a profile but no array the
  assertion passes: the call never raises AssertionError. With a path, the profile and the
  array that were passed are not looked at: the call is the one with the path alone.
\<close>

theorem expand_argument_check:
  "(\<not> truthy_str src_path \<and> \<not> truthy_profile w src_profile \<longrightarrow>
      expand_raster_to_bounds M trg_bounds src_path src_profile src_array fill_value save_path w =
        (Inl (AssertionError
           ''Either src_path, src_array and src_profile, or src_profile must be provided.''), w))
   \<and> (\<not> truthy_str src_path \<and> truthy_profile w src_profile \<longrightarrow>
        (\<forall>msg. fst (expand_raster_to_bounds M trg_bounds src_path src_profile None fill_value
                      save_path w) \<noteq> Inl (AssertionError msg)))
   \<and> (truthy_str src_path \<longrightarrow>
        expand_raster_to_bounds M trg_bounds src_path src_profile src_array fill_value save_path w =
        expand_raster_to_bounds M trg_bounds src_path None None fill_value save_path w)"
proof (intro conjI impI allI)
  assume "\<not> truthy_str src_path \<and> \<not> truthy_profile w src_profile"
  then show "expand_raster_to_bounds M trg_bounds src_path src_profile src_array fill_value
      save_path w =
        (Inl (AssertionError
           ''Either src_path, src_array and src_profile, or src_profile must be provided.''), w)"
    by (simp add: expand_raster_to_bounds_def args_provided_def)
next
  fix msg
  assume "\<not> truthy_str src_path \<and> truthy_profile w src_profile"
  then show "fst (expand_raster_to_bounds M trg_bounds src_path src_profile None fill_value
                      save_path w) \<noteq> Inl (AssertionError msg)"
    using expand_profile_only_no_assert by blast
next
  assume p: "truthy_str src_path"
  have "read_source src_path src_profile src_array w = read_source src_path None None w"
    using p by (simp add: read_source_def)
  then show "expand_raster_to_bounds M trg_bounds src_path src_profile src_array fill_value
      save_path w =
        expand_raster_to_bounds M trg_bounds src_path None None fill_value save_path w"
    using p by (simp add: expand_raster_to_bounds_def args_provided_def)
qed

theorem expand_argument_check_witness:
  "expand_raster_to_bounds first_dataset_merge (0, 0, 2, 2) [] None (Some band_3d) 0 []
      sample_world =
     (Inl (AssertionError
        ''Either src_path, src_array and src_profile, or src_profile must be provided.''),
      sample_world)
   \<and> (\<forall>msg. fst (expand_raster_to_bounds first_dataset_merge (0, 0, 2, 2) [] (Some 0) None 0 []
                   sample_world) \<noteq> Inl (AssertionError msg))
   \<and> expand_raster_to_bounds first_dataset_merge (0, 0, 2, 2) ''dem.tif'' (Some 0)
        (Some band_3d) 0 [] sample_world =
      expand_raster_to_bounds first_dataset_merge (0, 0, 2, 2) ''dem.tif'' None None 0 []
        sample_world"
proof -
  have n: "\<not> truthy_str [] \<and> \<not> truthy_profile sample_world None"
    by (simp add: truthy_str_def truthy_profile_def)
  have y: "\<not> truthy_str [] \<and> truthy_profile sample_world (Some 0)"
    by (simp add: truthy_str_def truthy_profile_def sample_world_def sample_profile_def)
  have t: "truthy_str ''dem.tif''"
    by (simp add: truthy_str_def)
  show ?thesis
    using n y t
      expand_argument_check [of "[]" sample_world None first_dataset_merge "(0, 0, 2, 2)"
        "Some band_3d" 0 "[]"]
      expand_argument_check [of "[]" sample_world "Some 0" first_dataset_merge "(0, 0, 2, 2)"
        None 0 "[]"]
      expand_argument_check [of "''dem.tif''" sample_world "Some 0" first_dataset_merge
        "(0, 0, 2, 2)" "Some band_3d" 0 "[]"]
    by blast
qed

text \<open>
  Claim C6 as stated fails: a call with a profile and nothing else does not fail. It
  returns the fill array and, as its profile, a new dictionary.
\<close>

theorem expand_profile_only_counterexample:
  "fst (expand_raster_to_bounds first_dataset_merge (0, 0, 2, 2) [] (Some 0) None 0 []
          sample_world) = Inr (\<lparr>shape = [1, 2, 2], elems = replicate 4 0\<rparr>, 2)"
  by (simp add: run_defs)

section \<open>The merge of the source in \<^verbatim>\<open>expand_raster_to_bounds\<close>\<close>

lemma make_fill_value:
  assumes "map_of (dicts w p) ''dtype'' = Some dt" and "0 \<le> new_width x" and "0 \<le> new_height x"
    and "p < fresh w"
  shows "make_fill p x lon_res lat_res fill_value w =
     (Inr (\<lparr>shape = [1, nat (new_height x), nat (new_width x)],
            elems = replicate (nat (new_height x * new_width x)) fill_value\<rparr>, fresh w),
      w\<lparr>dicts := (dicts w)(fresh w :=
            AList.update ''transform''
              (PAffine (from_origin (new_trg_left x) (new_trg_top x) lon_res lat_res))
              (AList.update ''height'' (PInt (new_height x))
                (AList.update ''width'' (PInt (new_width x)) (dicts w p)))),
        fresh := Suc (fresh w)\<rparr>)"
  using assms
  by (simp add: make_fill_def dict_copy_def dict_new_def dict_setitem_def py_getitem_def np_full_def
        Let_def)

lemma make_fill_shape:
  assumes "make_fill p x lon_res lat_res fill_value w = (Inr (fill_array, fill_profile), w2)"
  shows "length (shape fill_array) = 3"
  using assms
  by (auto simp: make_fill_def dict_copy_def dict_new_def py_getitem_def np_full_def Let_def
        split: option.splits if_splits)

lemma merge_source_2d_raises:
  assumes "length (shape arr) = 2" and "length (shape fill_array) = 3"
  shows "\<exists>e. fst (merge_source M (Some arr) src_profile fill_array fill_profile w) = Inl e"
proof -
  have "\<not> same_ndim [arr, fill_array]"
    using assms by (simp add: same_ndim_def)
  then have "fst (merge_arrays_with_geometadata M [arr, fill_array] [src_profile, fill_profile]
      ''bilinear'' nodata dtype ''first'' w) =
      Inl (ValueError ''All arrays must have same number of dimensions i.e. 2 or 3'')"
    for nodata dtype
    using assms(1) by (simp add: merge_arrays_with_geometadata_def Let_def)
  then show ?thesis
    by (simp add: merge_source_def split: sum.split)
qed

lemma expand_2d_source_raises:
  assumes "read_source src_path src_profile src_array w =
             (Inr (Some arr, src_prof, src_bounds), w1)"
    and "length (shape arr) = 2"
  shows "\<exists>e. fst (expand_raster_to_bounds M trg_bounds src_path src_profile src_array fill_value
                   save_path w) = Inl e"
proof (cases "args_provided w src_path src_profile src_array")
  case False
  then show ?thesis
    by (simp add: expand_raster_to_bounds_def)
next
  case True
  show ?thesis
  proof (cases "pixel_size aff_a (dicts w1 src_prof)")
    case (Inl e)
    with True assms(1) show ?thesis
      by (simp add: expand_raster_to_bounds_def)
  next
    case lon: (Inr lon_res)
    show ?thesis
    proof (cases "pixel_size aff_e (dicts w1 src_prof)")
      case (Inl e)
      with True assms(1) lon show ?thesis
        by (simp add: expand_raster_to_bounds_def)
    next
      case lat: (Inr lat_res)
      show ?thesis
      proof (cases "expand_extent src_bounds trg_bounds lon_res lat_res")
        case (Inl e)
        with True assms(1) lon lat show ?thesis
          by (simp add: expand_raster_to_bounds_def)
      next
        case ext: (Inr x)
        obtain r2 w2 where mf: "make_fill src_prof x lon_res lat_res fill_value w1 = (r2, w2)"
          by (cases "make_fill src_prof x lon_res lat_res fill_value w1")
        show ?thesis
        proof (cases r2)
          case (Inl e)
          with True assms(1) lon lat ext mf show ?thesis
            by (simp add: expand_raster_to_bounds_def)
        next
          case (Inr fp)
          then obtain fill_array fill_profile where fp: "r2 = Inr (fill_array, fill_profile)"
            by (cases fp) auto
          have "length (shape fill_array) = 3"
            using mf fp make_fill_shape by blast
          then obtain e where
            "fst (merge_source M (Some arr) src_prof fill_array fill_profile w2) = Inl e"
            using merge_source_2d_raises [OF assms(2)] by blast
          with True assms(1) lon lat ext mf fp show ?thesis
            by (auto simp: expand_raster_to_bounds_def split: prod.splits sum.splits)
        qed
      qed
    qed
  qed
qed

lemma expand_profile_only_fill:
  assumes "\<not> truthy_str src_path" and "dicts w p \<noteq> []" and "p < fresh w"
    and "bounds_from_profile (dicts w p) = Inr src_bounds"
    and "pixel_size aff_a (dicts w p) = Inr lon_res"
    and "pixel_size aff_e (dicts w p) = Inr lat_res"
    and "expand_extent src_bounds trg_bounds lon_res lat_res = Inr x"
    and "map_of (dicts w p) ''dtype'' = Some dt"
    and "0 \<le> new_width x" and "0 \<le> new_height x"
  shows "expand_raster_to_bounds M trg_bounds src_path (Some p) None fill_value save_path w =
     (case make_fill p x lon_res lat_res fill_value w of
        (Inl e, w2) \<Rightarrow> (Inl e, w2)
      | (Inr (fill_array, fill_profile), w2) \<Rightarrow>
          (Inr (fill_array, fill_profile), save_raster save_path fill_array fill_profile w2))"
  using assms(1-7)
  by (simp add: expand_raster_to_bounds_def args_provided_def truthy_profile_def read_source_def
        merge_source_def split: prod.split sum.split)

text \<open>
  The two ways through lines 127 to 140: with a profile and no array the call returns the
  fill array and a new fill profile and leaves the source profile as it was; with a
  profile and an array it returns what \<open>merge_arrays_with_geometadata\<close> returns for
  the source and the fill, in this order, with bilinear resampling and the method
  \<^verbatim>\<open>first\<close>.
\<close>

lemma expand_profile_only_result:
  assumes "\<not> truthy_str src_path" and "dicts w p \<noteq> []" and "p < fresh w"
    and "bounds_from_profile (dicts w p) = Inr src_bounds"
    and "pixel_size aff_a (dicts w p) = Inr lon_res"
    and "pixel_size aff_e (dicts w p) = Inr lat_res"
    and "expand_extent src_bounds trg_bounds lon_res lat_res = Inr x"
    and "map_of (dicts w p) ''dtype'' = Some dt"
    and "0 \<le> new_width x" and "0 \<le> new_height x"
  shows "fst (expand_raster_to_bounds M trg_bounds src_path (Some p) None fill_value [] w) =
           Inr (\<lparr>shape = [1, nat (new_height x), nat (new_width x)],
                 elems = replicate (nat (new_height x * new_width x)) fill_value\<rparr>, fresh w)"
    and "map_of (dicts (snd (expand_raster_to_bounds M trg_bounds src_path (Some p) None
                   fill_value [] w)) (fresh w)) =
           (map_of (dicts w p))
             (''width'' \<mapsto> PInt (new_width x), ''height'' \<mapsto> PInt (new_height x),
              ''transform'' \<mapsto>
                PAffine (from_origin (new_trg_left x) (new_trg_top x) lon_res lat_res))"
    and "dicts (snd (expand_raster_to_bounds M trg_bounds src_path (Some p) None
                   fill_value [] w)) p = dicts w p"
proof -
  have e: "expand_raster_to_bounds M trg_bounds src_path (Some p) None fill_value [] w =
     (Inr (\<lparr>shape = [1, nat (new_height x), nat (new_width x)],
            elems = replicate (nat (new_height x * new_width x)) fill_value\<rparr>, fresh w),
      w\<lparr>dicts := (dicts w)(fresh w :=
            AList.update ''transform''
              (PAffine (from_origin (new_trg_left x) (new_trg_top x) lon_res lat_res))
              (AList.update ''height'' (PInt (new_height x))
                (AList.update ''width'' (PInt (new_width x)) (dicts w p)))),
        fresh := Suc (fresh w)\<rparr>)"
    unfolding expand_profile_only_fill [OF assms]
      make_fill_value [OF assms(8) assms(9) assms(10) assms(3)]
    by (simp add: save_raster_def truthy_str_def)
  show "fst (expand_raster_to_bounds M trg_bounds src_path (Some p) None fill_value [] w) =
           Inr (\<lparr>shape = [1, nat (new_height x), nat (new_width x)],
                 elems = replicate (nat (new_height x * new_width x)) fill_value\<rparr>, fresh w)"
    by (simp add: e)
  show "map_of (dicts (snd (expand_raster_to_bounds M trg_bounds src_path (Some p) None
                   fill_value [] w)) (fresh w)) =
           (map_of (dicts w p))
             (''width'' \<mapsto> PInt (new_width x), ''height'' \<mapsto> PInt (new_height x),
              ''transform'' \<mapsto>
                PAffine (from_origin (new_trg_left x) (new_trg_top x) lon_res lat_res))"
    by (simp add: e update_conv')
  show "dicts (snd (expand_raster_to_bounds M trg_bounds src_path (Some p) None
                   fill_value [] w)) p = dicts w p"
    using assms(3) by (simp add: e)
qed

lemma expand_source_array_merge:
  assumes "\<not> truthy_str src_path" and "dicts w p \<noteq> []"
    and "bounds_from_profile (dicts w p) = Inr src_bounds"
    and "pixel_size aff_a (dicts w p) = Inr lon_res"
    and "pixel_size aff_e (dicts w p) = Inr lat_res"
    and "expand_extent src_bounds trg_bounds lon_res lat_res = Inr x"
    and "make_fill p x lon_res lat_res fill_value w = (Inr (fill_array, fill_profile), w2)"
    and "map_of (dicts w2 p) ''nodata'' = Some nodata"
    and "map_of (dicts w2 p) ''dtype'' = Some dtype"
  shows "expand_raster_to_bounds M trg_bounds src_path (Some p) (Some arr) fill_value save_path w =
     (case merge_arrays_with_geometadata M [arr, fill_array] [p, fill_profile]
             ''bilinear'' nodata dtype ''first'' w2 of
        (Inl e, w3) \<Rightarrow> (Inl e, w3)
      | (Inr (trg_array, trg_profile), w3) \<Rightarrow>
          (Inr (trg_array, trg_profile), save_raster save_path trg_array trg_profile w3))"
  using assms
  by (simp add: expand_raster_to_bounds_def args_provided_def truthy_profile_def read_source_def
        merge_source_def py_getitem_def)

text \<open>
  Claim C9. A two-dimensional source array, as \<^verbatim>\<open>src.read(1)\<close> returns for every file
  and as a caller may pass, is never merged: the fill array has three dimensions, so the
  merge rejects the pair and the call raises ValueError, both for an array passed
  directly and for a source read from a path.
\<close>

theorem expand_2d_source_value_error:
  "fst (expand_raster_to_bounds first_dataset_merge (0, 0, 2, 2) [] (Some 0) (Some band_2d) 0 []
          sample_world) =
     Inl (ValueError ''All arrays must have same number of dimensions i.e. 2 or 3'')
   \<and> fst (expand_raster_to_bounds first_dataset_merge (0, 0, 2, 2) ''dem.tif'' None None 0 []
          sample_world) =
     Inl (ValueError ''All arrays must have same number of dimensions i.e. 2 or 3'')"
  by (simp add: run_defs)

end
